theory Spec2Isabelle
  imports Main
begin

section \<open>The conversation flow client of the chat widgets\<close>

text \<open>
  The repository holds three copies of one protocol client: \<^verbatim>\<open>EmbedChat\<close>
  (src/pages/embed.tsx), \<^verbatim>\<open>ChatBot\<close> (src/components/ChatBot.tsx) and
  \<^verbatim>\<open>PublicBotChatPage\<close> (src/components/EmbedCustomizer.tsx). The copies differ in
  the catch block of \<^verbatim>\<open>initFlow\<close>, in the order of the guards of
  \<^verbatim>\<open>handleSendMessage\<close>, in the text of one fallback message, in the toasts, which the
  embed widget does not raise, and in the preview mode, which only the embed widget has. The model takes the surface as a parameter and
  branches on it exactly where the copies differ.

  React state is a record; a handler takes the state of the render it was created in and
  returns the state after its queued updates, together with the effects it issued.
  An \<^verbatim>\<open>async\<close> handler is split at its \<^verbatim>\<open>await\<close>: the part before it issues the
  request, the part after it takes what the transport delivered. Console output is
  not modelled.
\<close>

subsection \<open>JavaScript values\<close>

text \<open>
  A \<^typ>\<open>string\<close> is a sequence of code units below 256. Truthiness of an optional
  string: \<^verbatim>\<open>undefined\<close>, \<^verbatim>\<open>null\<close> and the empty string are falsy.
\<close>

definition truthy :: "string option \<Rightarrow> bool" where
  "truthy v = (case v of None \<Rightarrow> False | Some s \<Rightarrow> s \<noteq> [])"

text \<open>\<^verbatim>\<open>a || b\<close> on optional strings.\<close>

definition orElse :: "string option \<Rightarrow> string option \<Rightarrow> string option" where
  "orElse a b = (if truthy a then a else b)"

text \<open>The white space that \<^verbatim>\<open>String.prototype.trim\<close> removes, among the code units below 256:
  TAB, LF, VT, FF, CR, SPACE and NBSP.\<close>

definition isWhiteSpace :: "char \<Rightarrow> bool" where
  "isWhiteSpace c = (c \<in> set [CHR 0x09, CHR 0x0A, CHR 0x0B, CHR 0x0C, CHR 0x0D, CHR 0x20, CHR 0xA0])"

definition trim :: "string \<Rightarrow> string" where
  "trim s = rev (dropWhile isWhiteSpace (rev (dropWhile isWhiteSpace s)))"

text \<open>\<^verbatim>\<open>s.replace(pat, rep)\<close> with a string pattern: the first occurrence only. The one
  replacement the source uses is the empty string, which has no \<^verbatim>\<open>$\<close> patterns.\<close>

fun replaceFirst :: "string \<Rightarrow> string \<Rightarrow> string \<Rightarrow> string" where
  "replaceFirst pat rep [] = (if pat = [] then rep else [])"
| "replaceFirst pat rep (c # cs) =
     (if take (length pat) (c # cs) = pat then rep @ drop (length pat) (c # cs)
      else c # replaceFirst pat rep cs)"


subsection \<open>Data\<close>

datatype surface = EmbedChat | ChatBot | PublicBotChatPage

datatype sender = User | Bot

text \<open>\<^verbatim>\<open>interface Message\<close>. The embed widget calls the fields \<^verbatim>\<open>from\<close> and \<^verbatim>\<open>text\<close>, the
  other two \<^verbatim>\<open>sender\<close> and \<^verbatim>\<open>content\<close>; an optional field is an option.\<close>

record message =
  msg_id :: string
  sender :: sender
  content :: string
  timestamp :: int
  showConfirmationButtons :: "bool option"
  showBranchOptions :: "bool option"
  branchOptions :: "string list option"
  selectedBranch :: "string option"

text \<open>One element of \<^verbatim>\<open>data.messages\<close>; \<^verbatim>\<open>raw_awaitingInput\<close> is the message's own
  \<^verbatim>\<open>awaitingInput\<close> flag, \<^const>\<open>None\<close> when the field is absent.\<close>

record raw_message =
  raw_type :: "string option"
  raw_content :: "string option"
  raw_message :: "string option"
  raw_awaitingInput :: "bool option"
  raw_options :: "string list option"

text \<open>The envelope's \<^verbatim>\<open>awaitingInput\<close> descriptor, stored as it comes in \<^verbatim>\<open>currentPausedFor\<close>.\<close>

record awaiting =
  aw_type :: "string option"
  aw_showConfirmationButtons :: bool

text \<open>The JSON body of a start or respond call, and of an ask call
  (\<^verbatim>\<open>ask_result\<close> is \<^verbatim>\<open>data.result\<close>, holding \<^verbatim>\<open>answer\<close>).\<close>

record flow_data =
  data_sessionId :: "string option"
  data_messages :: "raw_message list option"
  data_awaitingInput :: "awaiting option"
  data_finished :: bool
  data_error :: "string option"

record ask_data =
  ask_result :: "string option option"
  ask_error :: "string option"

text \<open>What \<^verbatim>\<open>await fetch(...)\<close> followed by \<^verbatim>\<open>await res.json()\<close> delivers: an exception
  with its message, or \<^verbatim>\<open>res.ok\<close> and the parsed body.\<close>

datatype 'a fetched = Threw string | Response bool 'a

datatype body = Input string | OptionIndexOrLabel string

datatype request =
    StartFlow string
  | RespondFlow string body
  | AskQuestion string string

datatype effect =
    Fetch request
  | WindowOpen string
  | Toast string string
  | SetTimeout nat

text \<open>The component's state hooks.\<close>

record state =
  messages :: "message list"
  input :: string
  isLoading :: bool
  currentPausedFor :: "awaiting option"
  sessionId :: "string option"
  flowFinished :: bool

text \<open>Props and URL parameters: the surface, \<^verbatim>\<open>isPreview\<close> (embed widget only) and the
  bot's id.\<close>

record config =
  surface :: surface
  isPreview :: bool
  botId :: string

text \<open>
  What one handler run reads from the clock and the random generator:
  \<^verbatim>\<open>Date.now().toString()\<close> and \<^verbatim>\<open>new Date()\<close> for the user message, and for the
  bot message pushed at position \<open>k\<close> of \<^verbatim>\<open>botMessages\<close> its
  \<^verbatim>\<open>Date.now().toString() + Math.random()\<close> and \<^verbatim>\<open>new Date()\<close>; and the message of the
  \<^verbatim>\<open>TypeError\<close> the engine raises on \<^verbatim>\<open>data.result.answer\<close> when \<^verbatim>\<open>data.result\<close> is missing.
\<close>

record readings =
  userId :: string
  userDate :: int
  botIdAt :: "nat \<Rightarrow> string"
  botDateAt :: "nat \<Rightarrow> int"
  typeErrorMessage :: string

definition initialState :: state where
  "initialState = \<lparr>messages = [], input = [], isLoading = False, currentPausedFor = None,
     sessionId = None, flowFinished = False\<rparr>"

subsection \<open>Turning the messages of a response into chat messages\<close>

definition redirectUrl :: "raw_message \<Rightarrow> string option" where
  "redirectUrl msg =
     orElse (map_option (replaceFirst ''Redirecting to: '' []) (raw_content msg)) (raw_content msg)"

definition windowOpen :: "string option \<Rightarrow> effect list" where
  "windowOpen url = (case url of None \<Rightarrow> [] | Some u \<Rightarrow> if u \<noteq> [] then [WindowOpen u] else [])"

definition optionsOrEmpty :: "raw_message \<Rightarrow> string list" where
  "optionsOrEmpty msg = (case raw_options msg of None \<Rightarrow> [] | Some os \<Rightarrow> os)"

definition contentOrMessage :: "raw_message \<Rightarrow> string" where
  "contentOrMessage msg =
     (case orElse (orElse (raw_content msg) (raw_message msg)) (Some []) of
        None \<Rightarrow> [] | Some s \<Rightarrow> s)"

definition branchMessage :: "readings \<Rightarrow> nat \<Rightarrow> raw_message \<Rightarrow> message" where
  "branchMessage rd k msg =
     \<lparr>msg_id = botIdAt rd k, sender = Bot, content = [], timestamp = botDateAt rd k,
      showConfirmationButtons = None, showBranchOptions = Some True,
      branchOptions = Some (optionsOrEmpty msg), selectedBranch = None\<rparr>"

definition plainMessage :: "readings \<Rightarrow> nat \<Rightarrow> raw_message \<Rightarrow> message" where
  "plainMessage rd k msg =
     \<lparr>msg_id = botIdAt rd k, sender = Bot, content = contentOrMessage msg,
      timestamp = botDateAt rd k,
      showConfirmationButtons =
        (if raw_type msg = Some ''confirmation'' then raw_awaitingInput msg else Some False),
      showBranchOptions = Some False,
      branchOptions = Some (optionsOrEmpty msg), selectedBranch = None\<rparr>"

text \<open>The callback of \<^verbatim>\<open>(data.messages || []).forEach\<close>, on \<^verbatim>\<open>botMessages\<close> and the
  effects issued so far.\<close>

fun pushMessage :: "readings \<Rightarrow> message list \<times> effect list \<Rightarrow> raw_message \<Rightarrow> message list \<times> effect list" where
  "pushMessage rd (botMessages, effs) msg =
     (if raw_type msg = Some ''redirect'' then (botMessages, effs @ windowOpen (redirectUrl msg))
      else if raw_type msg = Some ''branch'' \<and> raw_awaitingInput msg = Some True
        then (botMessages @ [branchMessage rd (length botMessages) msg], effs)
      else (botMessages @ [plainMessage rd (length botMessages) msg], effs))"

definition forEachMessage :: "readings \<Rightarrow> raw_message list option \<Rightarrow> message list \<times> effect list" where
  "forEachMessage rd msgs =
     foldl (pushMessage rd) ([], []) (case msgs of None \<Rightarrow> [] | Some ms \<Rightarrow> ms)"

definition botText :: "readings \<Rightarrow> nat \<Rightarrow> string \<Rightarrow> message" where
  "botText rd k s =
     \<lparr>msg_id = botIdAt rd k, sender = Bot, content = s, timestamp = botDateAt rd k,
      showConfirmationButtons = None, showBranchOptions = None,
      branchOptions = None, selectedBranch = None\<rparr>"

definition userText :: "readings \<Rightarrow> string \<Rightarrow> message" where
  "userText rd s =
     \<lparr>msg_id = userId rd, sender = User, content = s, timestamp = userDate rd,
      showConfirmationButtons = None, showBranchOptions = None,
      branchOptions = None, selectedBranch = None\<rparr>"

definition initMessage :: "readings \<Rightarrow> message" where
  "initMessage rd =
     \<lparr>msg_id = ''init'', sender = Bot,
      content = ''Hello! I'm here to help. What would you like to know?'',
      timestamp = userDate rd,
      showConfirmationButtons = None, showBranchOptions = None,
      branchOptions = None, selectedBranch = None\<rparr>"

subsection \<open>Starting the flow\<close>

text \<open>
  \<^verbatim>\<open>initFlow\<close> after its \<^verbatim>\<open>await\<close>s. It does not look at \<^verbatim>\<open>res.ok\<close>. The effect hook
  runs it once the bot is loaded (and, in the embed widget, outside preview mode).
\<close>

definition initFlow :: "config \<Rightarrow> readings \<Rightarrow> state \<Rightarrow> flow_data fetched \<Rightarrow> state \<times> effect list" where
  "initFlow cfg rd st r =
     (case r of
        Threw e \<Rightarrow>
          (if surface cfg = EmbedChat then (st\<lparr>messages := [initMessage rd]\<rparr>, [])
           else (st, [Toast ''Error'' ''Failed to start conversation'']))
      | Response ok d \<Rightarrow>
          (let st1 = (if truthy (data_sessionId d) then st\<lparr>sessionId := data_sessionId d\<rparr> else st);
               (botMessages, effs) = forEachMessage rd (data_messages d)
           in if data_finished d
              then (st1\<lparr>flowFinished := True, currentPausedFor := None,
                        messages := botMessages @
                          [botText rd (length botMessages) ''Feel free to ask me any questions!'']\<rparr>,
                    effs)
              else (st1\<lparr>currentPausedFor := data_awaitingInput d, messages := botMessages\<rparr>, effs)))"

text \<open>The messages the embed widget shows in preview mode, set by an effect hook at the
  mount; \<^verbatim>\<open>userDate rd\<close> stands for its \<^verbatim>\<open>Date.now()\<close>.\<close>

definition previewMessages :: "readings \<Rightarrow> message list" where
  "previewMessages rd =
     [\<lparr>msg_id = ''bot-preview-1'', sender = Bot,
       content = ''Hello! I'm here to help. What would you like to know?'',
       timestamp = userDate rd - 60000,
       showConfirmationButtons = None, showBranchOptions = None,
       branchOptions = None, selectedBranch = None\<rparr>,
      \<lparr>msg_id = ''user-preview-1'', sender = User,
       content = ''This is a preview of a user message'',
       timestamp = userDate rd - 30000,
       showConfirmationButtons = None, showBranchOptions = None,
       branchOptions = None, selectedBranch = None\<rparr>,
      \<lparr>msg_id = ''bot-preview-2'', sender = Bot,
       content = ''This is how my responses will look with your customized colors!'',
       timestamp = userDate rd,
       showConfirmationButtons = None, showBranchOptions = None,
       branchOptions = None, selectedBranch = None\<rparr>]"

text \<open>The state after the effect hooks of the mount, for a bot that has been loaded: the
  embed widget in preview mode shows the preview messages and starts no flow, every
  other widget runs \<^const>\<open>initFlow\<close>.\<close>

definition mount :: "config \<Rightarrow> readings \<Rightarrow> flow_data fetched \<Rightarrow> state \<times> effect list" where
  "mount cfg rd r =
     (if surface cfg = EmbedChat \<and> isPreview cfg
      then (initialState\<lparr>messages := previewMessages rd\<rparr>, [])
      else initFlow cfg rd initialState r)"

subsection \<open>Question and answer mode\<close>

text \<open>\<^verbatim>\<open>handleAskQuestion\<close> up to its first \<^verbatim>\<open>await\<close>.\<close>

definition handleAskQuestion :: "config \<Rightarrow> readings \<Rightarrow> state \<Rightarrow> state \<times> effect list" where
  "handleAskQuestion cfg rd st =
     (let question = trim (input st)
      in if question = [] \<or> isLoading st then (st, [])
         else (st\<lparr>messages := messages st @ [userText rd question], input := [], isLoading := True\<rparr>,
               [Fetch (AskQuestion question (botId cfg))]))"

text \<open>The \<^verbatim>\<open>try\<close> block after the \<^verbatim>\<open>await\<close>s: \<^const>\<open>Inl\<close> is the message of the exception
  that reaches \<^verbatim>\<open>catch\<close>, \<^const>\<open>Inr\<close> the bot message to append.\<close>

definition askTry :: "readings \<Rightarrow> ask_data fetched \<Rightarrow> string + message" where
  "askTry rd r =
     (case r of
        Threw e \<Rightarrow> Inl e
      | Response ok d \<Rightarrow>
          (if \<not> ok
           then Inl (case ask_error d of None \<Rightarrow> ''Failed to get answer''
                     | Some e \<Rightarrow> if e \<noteq> [] then e else ''Failed to get answer'')
           else (case ask_result d of
                   None \<Rightarrow> Inl (typeErrorMessage rd)
                 | Some answer \<Rightarrow>
                     Inr (botText rd 0
                       (case answer of None \<Rightarrow> ''I couldn't find an answer to that question.''
                        | Some a \<Rightarrow> if a \<noteq> [] then a
                                    else ''I couldn't find an answer to that question.'')))))"

text \<open>The toast of the \<^verbatim>\<open>catch\<close> blocks of \<^verbatim>\<open>ChatBot\<close> and \<^verbatim>\<open>PublicBotChatPage\<close>; the
  embed widget has none.\<close>

definition errorToast :: "config \<Rightarrow> string \<Rightarrow> effect list" where
  "errorToast cfg e =
     (if surface cfg = EmbedChat then []
      else [Toast ''Error'' (if e \<noteq> [] then e else ''Something went wrong'')])"

text \<open>\<^verbatim>\<open>handleAskQuestion\<close> from the \<^verbatim>\<open>await\<close> on: \<^verbatim>\<open>try\<close>, \<^verbatim>\<open>catch\<close> and \<^verbatim>\<open>finally\<close>.\<close>

definition handleAskQuestion_resume :: "config \<Rightarrow> readings \<Rightarrow> state \<Rightarrow> ask_data fetched \<Rightarrow> state \<times> effect list" where
  "handleAskQuestion_resume cfg rd st r =
     (case askTry rd r of
        Inr botMessage \<Rightarrow> (st\<lparr>messages := messages st @ [botMessage], isLoading := False\<rparr>, [])
      | Inl e \<Rightarrow>
          (st\<lparr>messages := messages st @
                 [botText rd 0 ''I'm having trouble answering that. Please try again.''],
               isLoading := False\<rparr>,
           errorToast cfg e))"

subsection \<open>Sending a message\<close>

definition messageToSend :: "state \<Rightarrow> string option \<Rightarrow> string" where
  "messageToSend st overrideInput =
     (case overrideInput of
        None \<Rightarrow> trim (input st)
      | Some s \<Rightarrow> if s \<noteq> [] then s else trim (input st))"

text \<open>The part of \<^verbatim>\<open>handleSendMessage\<close> after all its guards, up to the \<^verbatim>\<open>await\<close>.\<close>

definition sendToFlow :: "readings \<Rightarrow> state \<Rightarrow> string \<Rightarrow> bool \<Rightarrow> state \<times> effect list" where
  "sendToFlow rd st m isBranchOption =
     (st\<lparr>currentPausedFor := None, messages := messages st @ [userText rd m], input := [],
          isLoading := True\<rparr>,
      [Fetch (RespondFlow (case sessionId st of None \<Rightarrow> [] | Some sid \<Rightarrow> sid)
         (if (case currentPausedFor st of None \<Rightarrow> False | Some p \<Rightarrow> aw_type p = Some ''branch'')
             \<or> isBranchOption
          then OptionIndexOrLabel m else Input m))])"

text \<open>\<^verbatim>\<open>handleSendMessage(overrideInput, isBranchOption)\<close> up to its first \<^verbatim>\<open>await\<close>, with
  the guards in the order of each copy.\<close>

definition handleSendMessage :: "config \<Rightarrow> readings \<Rightarrow> state \<Rightarrow> string option \<Rightarrow> bool \<Rightarrow> state \<times> effect list" where
  "handleSendMessage cfg rd st overrideInput isBranchOption =
     (let m = messageToSend st overrideInput
      in if surface cfg = EmbedChat
         then (if m = [] \<or> isLoading st then (st, [])
               else if isPreview cfg
                 then (st\<lparr>messages := messages st @ [userText rd m], input := [], isLoading := True\<rparr>,
                       [SetTimeout 1000])
               else if flowFinished st then handleAskQuestion cfg rd st
               else if \<not> truthy (sessionId st) then (st, [])
               else sendToFlow rd st m isBranchOption)
         else (if flowFinished st then handleAskQuestion cfg rd st
               else if m = [] \<or> isLoading st \<or> \<not> truthy (sessionId st) then (st, [])
               else sendToFlow rd st m isBranchOption))"

text \<open>The callback of the preview mode's \<^verbatim>\<open>setTimeout\<close>; \<^verbatim>\<open>botIdAt rd 0\<close> stands for its
  \<^verbatim>\<open>(Date.now() + 1).toString()\<close>.\<close>

definition previewTimeout :: "readings \<Rightarrow> state \<Rightarrow> state \<times> effect list" where
  "previewTimeout rd st =
     (st\<lparr>messages := messages st @ [botText rd 0
            ''This is a preview response. Your actual bot will respond based on your training data.''],
          isLoading := False\<rparr>, [])"

text \<open>The \<^verbatim>\<open>try\<close> block of \<^verbatim>\<open>handleSendMessage\<close> after the \<^verbatim>\<open>await\<close>s: the exception's
  message, or the body of a response with \<^verbatim>\<open>res.ok\<close>.\<close>

definition respondTry :: "flow_data fetched \<Rightarrow> string + flow_data" where
  "respondTry r =
     (case r of
        Threw e \<Rightarrow> Inl e
      | Response ok d \<Rightarrow>
          (if \<not> ok
           then Inl (case data_error d of None \<Rightarrow> ''Failed to send message''
                     | Some e \<Rightarrow> if e \<noteq> [] then e else ''Failed to send message'')
           else Inr d))"

definition connectivityApology :: "config \<Rightarrow> string" where
  "connectivityApology cfg =
     (if surface cfg = EmbedChat
      then ''Sorry, I'm having trouble connecting right now. Please try again.''
      else ''Something went wrong. Please try again.'')"

text \<open>\<^verbatim>\<open>handleSendMessage\<close> from the \<^verbatim>\<open>await\<close> on. \<^verbatim>\<open>setCurrentPausedFor\<close> is called with
  the descriptor and then, when the flow has finished, with \<^verbatim>\<open>null\<close>: the last call wins.\<close>

definition handleSendMessage_resume :: "config \<Rightarrow> readings \<Rightarrow> state \<Rightarrow> flow_data fetched \<Rightarrow> state \<times> effect list" where
  "handleSendMessage_resume cfg rd st r =
     (case respondTry r of
        Inr d \<Rightarrow>
          (let (botMessages, effs) = forEachMessage rd (data_messages d)
           in if data_finished d
              then (st\<lparr>currentPausedFor := None, flowFinished := True,
                        messages := messages st @ botMessages @
                          [botText rd (length botMessages)
                             ''Thank you! The conversation flow has ended. Feel free to ask me any questions!''],
                        isLoading := False\<rparr>, effs)
              else (st\<lparr>currentPausedFor := data_awaitingInput d,
                        messages := messages st @ botMessages, isLoading := False\<rparr>, effs))
      | Inl e \<Rightarrow>
          (st\<lparr>messages := messages st @ [botText rd 0 (connectivityApology cfg)],
               isLoading := False\<rparr>,
           errorToast cfg e))"

definition handleConfirmationClick :: "config \<Rightarrow> readings \<Rightarrow> state \<Rightarrow> string \<Rightarrow> state \<times> effect list" where
  "handleConfirmationClick cfg rd st answer = handleSendMessage cfg rd st (Some answer) False"

definition selectBranch :: "string \<Rightarrow> string \<Rightarrow> message \<Rightarrow> message" where
  "selectBranch option messageId msg =
     (if msg_id msg = messageId then msg\<lparr>selectedBranch := Some option\<rparr> else msg)"

text \<open>
  \<^verbatim>\<open>handleBranchOptionClick\<close>: the queued \<^verbatim>\<open>setMessages\<close> with the map, then
  \<^verbatim>\<open>handleSendMessage(option, true)\<close>. That call reads every hook but \<^verbatim>\<open>messages\<close> from
  the render, and updates \<^verbatim>\<open>messages\<close> by a function of the queued value, so it is run
  on the state with the mapped messages.
\<close>

definition handleBranchOptionClick :: "config \<Rightarrow> readings \<Rightarrow> state \<Rightarrow> string \<Rightarrow> string \<Rightarrow> state \<times> effect list" where
  "handleBranchOptionClick cfg rd st option messageId =
     handleSendMessage cfg rd
       (st\<lparr>messages := map (selectBranch option messageId) (messages st)\<rparr>) (Some option) True"

subsection \<open>The operations of a session\<close>

text \<open>A message whose option buttons the JSX renders:
  \<^verbatim>\<open>msg.showBranchOptions && msg.sender === "bot" && msg.branchOptions\<close>.\<close>

definition rendersBranchOptions :: "message \<Rightarrow> bool" where
  "rendersBranchOptions msg =
     (showBranchOptions msg = Some True \<and> sender msg = Bot \<and> branchOptions msg \<noteq> None)"

text \<open>There is a button for \<open>option\<close> on a message with id \<open>messageId\<close> that is not
  disabled: \<^verbatim>\<open>disabled={!!msg.selectedBranch}\<close>.\<close>

definition branchButtonEnabled :: "state \<Rightarrow> string \<Rightarrow> string \<Rightarrow> bool" where
  "branchButtonEnabled st option messageId =
     (\<exists>msg \<in> set (messages st).
        msg_id msg = messageId \<and> rendersBranchOptions msg
        \<and> (case branchOptions msg of None \<Rightarrow> False | Some os \<Rightarrow> option \<in> set os)
        \<and> \<not> truthy (selectedBranch msg))"

text \<open>Choosing a branch option is a click on such a button: the handler has no guard of
  its own, the disabled button is the guard.\<close>

definition submitBranchOption :: "config \<Rightarrow> readings \<Rightarrow> state \<Rightarrow> string \<Rightarrow> string \<Rightarrow> state \<times> effect list" where
  "submitBranchOption cfg rd st option messageId =
     (if branchButtonEnabled st option messageId
      then handleBranchOptionClick cfg rd st option messageId
      else (st, []))"

text \<open>Free text: the input box holds the text (\<^verbatim>\<open>setInput\<close> in \<^verbatim>\<open>onChange\<close>) and
  \<^verbatim>\<open>handleSendMessage()\<close> runs without arguments. A confirmation is the handler of the
  Yes and No buttons. The JSX shows or enables these controls in some states only; that
  narrows when the handlers run and is left out, so that what is proved of them holds
  whenever they run.\<close>

definition submitFreeText :: "config \<Rightarrow> readings \<Rightarrow> state \<Rightarrow> string \<Rightarrow> state \<times> effect list" where
  "submitFreeText cfg rd st txt = handleSendMessage cfg rd (st\<lparr>input := txt\<rparr>) None False"

definition submitConfirmation :: "config \<Rightarrow> readings \<Rightarrow> state \<Rightarrow> string \<Rightarrow> state \<times> effect list" where
  "submitConfirmation cfg rd st answer = handleConfirmationClick cfg rd st answer"

text \<open>The events of a session after its start: the three submissions, and the
  resumption of a suspended handler with what the transport (or the timer) delivered.\<close>

datatype action =
    SubmitFreeText string
  | SubmitConfirmation string
  | SubmitBranchOption string string
  | RespondSettled "flow_data fetched"
  | AskSettled "ask_data fetched"
  | PreviewTimeout

fun step :: "config \<Rightarrow> state \<Rightarrow> readings \<times> action \<Rightarrow> state \<times> effect list" where
  "step cfg st (rd, SubmitFreeText txt) = submitFreeText cfg rd st txt"
| "step cfg st (rd, SubmitConfirmation answer) = submitConfirmation cfg rd st answer"
| "step cfg st (rd, SubmitBranchOption option messageId) = submitBranchOption cfg rd st option messageId"
| "step cfg st (rd, RespondSettled r) = handleSendMessage_resume cfg rd st r"
| "step cfg st (rd, AskSettled r) = handleAskQuestion_resume cfg rd st r"
| "step cfg st (rd, PreviewTimeout) = previewTimeout rd st"

definition run :: "config \<Rightarrow> state \<Rightarrow> (readings \<times> action) list \<Rightarrow> state" where
  "run cfg st acts = foldl (\<lambda>s a. fst (step cfg s a)) st acts"

text \<open>A session: the mount with the start of the flow, then the events in order.\<close>

definition session :: "config \<Rightarrow> readings \<Rightarrow> flow_data fetched \<Rightarrow> (readings \<times> action) list \<Rightarrow> state" where
  "session cfg rd0 r acts = run cfg (fst (mount cfg rd0 r)) acts"

text \<open>The spec's \<open>PausedState.kind\<close>, read off the stored descriptor.\<close>

datatype paused_kind = PausedNone | PausedQuestion | PausedConfirmation | PausedBranch

definition pausedKind :: "state \<Rightarrow> paused_kind" where
  "pausedKind st =
     (case currentPausedFor st of
        None \<Rightarrow> PausedNone
      | Some p \<Rightarrow> if aw_type p = Some ''branch'' then PausedBranch
                  else if aw_type p = Some ''confirmation'' then PausedConfirmation
                  else PausedQuestion)"

text \<open>The spec's \<open>awaitingKind\<close> of a chat event, read off the two button flags.\<close>

datatype awaiting_kind = AwaitNone | AwaitConfirmation | AwaitBranch

definition awaitingKind :: "message \<Rightarrow> awaiting_kind" where
  "awaitingKind msg =
     (if showBranchOptions msg = Some True then AwaitBranch
      else if showConfirmationButtons msg = Some True then AwaitConfirmation
      else AwaitNone)"

subsection \<open>Growth of the message list\<close>

text \<open>
  \<open>extends old new\<close>: the list \<open>new\<close> is \<open>old\<close> with messages appended, where each old message
  keeps its position and every field but \<^const>\<open>selectedBranch\<close>; and a message whose
  \<^const>\<open>selectedBranch\<close> differs has it set, and carries the id of a message with option
  buttons.
\<close>

definition extends :: "message list \<Rightarrow> message list \<Rightarrow> bool" where
  "extends old new =
     (length old \<le> length new \<and>
      (\<forall>i < length old.
         new ! i = (old ! i)\<lparr>selectedBranch := selectedBranch (new ! i)\<rparr>
         \<and> (selectedBranch (new ! i) \<noteq> selectedBranch (old ! i) \<longrightarrow>
              selectedBranch (new ! i) \<noteq> None
              \<and> (\<exists>b \<in> set new. rendersBranchOptions b \<and> msg_id b = msg_id (old ! i)))))"

subsection \<open>A bot, a clock and some responses, for worked examples\<close>

definition botOne :: "surface \<Rightarrow> config" where
  "botOne s = \<lparr>surface = s, isPreview = False, botId = ''bot-1''\<rparr>"

definition clock :: readings where
  "clock = \<lparr>userId = ''1700000000000'', userDate = 1700000000000,
     botIdAt = (\<lambda>k. ''17000000000010.'' @ replicate (Suc k) CHR ''5''),
     botDateAt = (\<lambda>k. 1700000000001),
     typeErrorMessage = ''Cannot read properties of undefined (reading 'answer')''\<rparr>"

definition emptyData :: flow_data where
  "emptyData = \<lparr>data_sessionId = None, data_messages = None, data_awaitingInput = None,
     data_finished = False, data_error = None\<rparr>"

definition branchAB :: raw_message where
  "branchAB = \<lparr>raw_type = Some ''branch'', raw_content = None, raw_message = None,
     raw_awaitingInput = Some True, raw_options = Some [''A'', ''B'']\<rparr>"

definition awaitingBranch :: awaiting where
  "awaitingBranch = \<lparr>aw_type = Some ''branch'', aw_showConfirmationButtons = False\<rparr>"

text \<open>The start response of the spec's example.\<close>

definition startBranchAB :: "flow_data fetched" where
  "startBranchAB = Response True (emptyData\<lparr>data_sessionId := Some ''s1'',
     data_messages := Some [branchAB], data_awaitingInput := Some awaitingBranch\<rparr>)"

text \<open>A start response that is already finished and carries no session id.\<close>

definition startFinished :: "flow_data fetched" where
  "startFinished = Response True (emptyData\<lparr>data_finished := True\<rparr>)"

text \<open>A branch prompt with an empty option label.\<close>

definition branchBlankA :: raw_message where
  "branchBlankA = \<lparr>raw_type = Some ''branch'', raw_content = None, raw_message = None,
     raw_awaitingInput = Some True, raw_options = Some ['''', ''A'']\<rparr>"

definition startBlankA :: "flow_data fetched" where
  "startBlankA = Response True (emptyData\<lparr>data_sessionId := Some ''s1'',
     data_messages := Some [branchBlankA], data_awaitingInput := Some awaitingBranch\<rparr>)"

text \<open>The session of \<^const>\<open>startBlankA\<close> after a click on the empty option; and the
  session of \<^const>\<open>startBranchAB\<close> after a click on \<open>A\<close> and the answer to its request.\<close>

definition blankSelected :: state where
  "blankSelected = session (botOne EmbedChat) clock startBlankA
     [(clock, SubmitBranchOption '''' ''17000000000010.5'')]"

definition settledA :: state where
  "settledA = session (botOne EmbedChat) clock startBranchAB
     [(clock, SubmitBranchOption ''A'' ''17000000000010.5''),
      (clock, RespondSettled (Response True emptyData))]"

text \<open>A state with a branch prompt on display and a request in flight.\<close>

definition loadingAB :: state where
  "loadingAB = \<lparr>messages = [branchMessage clock 0 branchAB, userText clock ''hello''], input = [],
     isLoading = True, currentPausedFor = None, sessionId = Some ''s1'', flowFinished = False\<rparr>"




text \<open>A finished session without a session id, and the embed widget in preview mode.\<close>

definition finishedNoSession :: state where
  "finishedNoSession = session (botOne ChatBot) clock startFinished []"

definition previewConfig :: config where
  "previewConfig = \<lparr>surface = EmbedChat, isPreview = True, botId = ''bot-1''\<rparr>"

definition previewState :: state where
  "previewState = session previewConfig clock startFinished []"

lemmas example_defs = botOne_def clock_def emptyData_def branchAB_def awaitingBranch_def
  startBranchAB_def startFinished_def initialState_def

lemmas flow_defs = session_def run_def mount_def initFlow_def forEachMessage_def
  branchMessage_def plainMessage_def botText_def userText_def optionsOrEmpty_def
  contentOrMessage_def redirectUrl_def windowOpen_def
  submitFreeText_def submitConfirmation_def submitBranchOption_def handleConfirmationClick_def
  handleBranchOptionClick_def handleSendMessage_def handleAskQuestion_def sendToFlow_def
  messageToSend_def branchButtonEnabled_def rendersBranchOptions_def selectBranch_def
  handleSendMessage_resume_def handleAskQuestion_resume_def respondTry_def askTry_def
  errorToast_def connectivityApology_def previewMessages_def
  truthy_def orElse_def trim_def isWhiteSpace_def Let_def

section \<open>Properties\<close>

subsection \<open>Strings\<close>

lemma all_dropWhile: "(\<forall>x \<in> set (dropWhile P s). P x) \<longleftrightarrow> (\<forall>x \<in> set s. P x)"
  by (induction s) auto

text \<open>A text trims to nothing exactly when it is empty or white space only.\<close>

lemma trim_empty_iff: "trim s = [] \<longleftrightarrow> (\<forall>c \<in> set s. isWhiteSpace c)"
  by (simp add: trim_def dropWhile_eq_Nil_conv all_dropWhile)



subsection \<open>The message list only grows\<close>

lemma extends_refl: "extends xs xs"
  by (simp add: extends_def)

lemma extends_append: "extends xs (xs @ ys)"
  by (simp add: extends_def nth_append)

lemma same_but_selection:
  assumes "n = m\<lparr>selectedBranch := s\<rparr>"
  shows "msg_id n = msg_id m" and "rendersBranchOptions n = rendersBranchOptions m"
  using assms by (simp_all add: rendersBranchOptions_def)

lemma extends_keeps_branch:
  assumes "extends xs ys" and "b \<in> set xs" and "rendersBranchOptions b"
  shows "\<exists>b' \<in> set ys. rendersBranchOptions b' \<and> msg_id b' = msg_id b"
proof -
  from assms(2) obtain j where j: "j < length xs" "xs ! j = b"
    by (auto simp: in_set_conv_nth)
  with assms(1) have eq: "ys ! j = b\<lparr>selectedBranch := selectedBranch (ys ! j)\<rparr>" and len: "j < length ys"
    by (auto simp: extends_def)
  from same_but_selection[OF eq] assms(3) have "rendersBranchOptions (ys ! j)" "msg_id (ys ! j) = msg_id b"
    by simp_all
  with len show ?thesis by (metis nth_mem)
qed

lemma extends_trans:
  assumes ab: "extends xs ys" and bc: "extends ys zs"
  shows "extends xs zs"
proof -
  have len: "length xs \<le> length ys" "length ys \<le> length zs"
    using ab bc by (simp_all add: extends_def)
  have "\<And>i. i < length xs \<Longrightarrow>
         zs ! i = (xs ! i)\<lparr>selectedBranch := selectedBranch (zs ! i)\<rparr>
         \<and> (selectedBranch (zs ! i) \<noteq> selectedBranch (xs ! i) \<longrightarrow>
              selectedBranch (zs ! i) \<noteq> None
              \<and> (\<exists>b \<in> set zs. rendersBranchOptions b \<and> msg_id b = msg_id (xs ! i)))"
  proof -
    fix i assume i: "i < length xs"
    then have iy: "i < length ys" using len by simp
    from ab i have y: "ys ! i = (xs ! i)\<lparr>selectedBranch := selectedBranch (ys ! i)\<rparr>"
      and ych: "selectedBranch (ys ! i) \<noteq> selectedBranch (xs ! i) \<Longrightarrow>
              selectedBranch (ys ! i) \<noteq> None
              \<and> (\<exists>b \<in> set ys. rendersBranchOptions b \<and> msg_id b = msg_id (xs ! i))"
      by (simp_all add: extends_def)
    from bc iy have z: "zs ! i = (ys ! i)\<lparr>selectedBranch := selectedBranch (zs ! i)\<rparr>"
      and zch: "selectedBranch (zs ! i) \<noteq> selectedBranch (ys ! i) \<Longrightarrow>
              selectedBranch (zs ! i) \<noteq> None
              \<and> (\<exists>b \<in> set zs. rendersBranchOptions b \<and> msg_id b = msg_id (ys ! i))"
      by (simp_all add: extends_def)
    have idy: "msg_id (ys ! i) = msg_id (xs ! i)" using same_but_selection(1)[OF y] .
    have eq: "zs ! i = (xs ! i)\<lparr>selectedBranch := selectedBranch (zs ! i)\<rparr>"
      by (subst z, subst y) simp
    have ch: "selectedBranch (zs ! i) \<noteq> None
              \<and> (\<exists>b \<in> set zs. rendersBranchOptions b \<and> msg_id b = msg_id (xs ! i))"
      if neq: "selectedBranch (zs ! i) \<noteq> selectedBranch (xs ! i)"
    proof (cases "selectedBranch (zs ! i) = selectedBranch (ys ! i)")
      case False
      from zch[OF False] idy show ?thesis by simp
    next
      case True
      with neq have "selectedBranch (ys ! i) \<noteq> selectedBranch (xs ! i)" by simp
      from ych[OF this] obtain b where b: "selectedBranch (ys ! i) \<noteq> None" "b \<in> set ys"
        "rendersBranchOptions b" "msg_id b = msg_id (xs ! i)" by auto
      from extends_keeps_branch[OF bc b(2,3)] b(4) b(1) True show ?thesis by auto
    qed
    from eq ch show "zs ! i = (xs ! i)\<lparr>selectedBranch := selectedBranch (zs ! i)\<rparr>
         \<and> (selectedBranch (zs ! i) \<noteq> selectedBranch (xs ! i) \<longrightarrow>
              selectedBranch (zs ! i) \<noteq> None
              \<and> (\<exists>b \<in> set zs. rendersBranchOptions b \<and> msg_id b = msg_id (xs ! i)))"
      by blast
  qed
  with len show ?thesis by (simp add: extends_def)
qed

lemma extends_select:
  assumes "b \<in> set xs" and "rendersBranchOptions b" and "msg_id b = mid"
  shows "extends xs (map (selectBranch opt mid) xs)"
proof -
  have "selectBranch opt mid b \<in> set (map (selectBranch opt mid) xs)"
    using assms(1) by simp
  moreover have "rendersBranchOptions (selectBranch opt mid b)" "msg_id (selectBranch opt mid b) = mid"
    using assms(2,3) by (simp_all add: selectBranch_def rendersBranchOptions_def)
  ultimately have w: "\<exists>b' \<in> set (map (selectBranch opt mid) xs). rendersBranchOptions b' \<and> msg_id b' = mid"
    by blast
  show ?thesis
    unfolding extends_def using w by (auto simp: selectBranch_def)
qed

lemma handleAskQuestion_appends:
  "\<exists>ys. messages (fst (handleAskQuestion cfg rd st)) = messages st @ ys"
  by (simp add: handleAskQuestion_def Let_def)

lemma handleSendMessage_appends:
  "\<exists>ys. messages (fst (handleSendMessage cfg rd st ov b)) = messages st @ ys"
  using handleAskQuestion_appends[of cfg rd st]
  by (simp add: handleSendMessage_def sendToFlow_def Let_def)

lemma handleSendMessage_resume_appends:
  "\<exists>ys. messages (fst (handleSendMessage_resume cfg rd st r)) = messages st @ ys"
  by (simp add: handleSendMessage_resume_def Let_def split: sum.split prod.split)

lemma handleAskQuestion_resume_appends:
  "\<exists>ys. messages (fst (handleAskQuestion_resume cfg rd st r)) = messages st @ ys"
  by (simp add: handleAskQuestion_resume_def split: sum.split)

lemma step_extends: "extends (messages st) (messages (fst (step cfg st a)))"
proof (cases a)
  case (Pair rd act)
  show ?thesis
  proof (cases act)
    case (SubmitFreeText s)
    from handleSendMessage_appends[of cfg rd "st\<lparr>input := s\<rparr>" None False]
    show ?thesis using Pair SubmitFreeText
      by (auto simp: submitFreeText_def extends_append)
  next
    case (SubmitConfirmation answer)
    from handleSendMessage_appends[of cfg rd st "Some answer" False]
    show ?thesis using Pair SubmitConfirmation
      by (auto simp: submitConfirmation_def handleConfirmationClick_def extends_append)
  next
    case (SubmitBranchOption opt mid)
    show ?thesis
    proof (cases "branchButtonEnabled st opt mid")
      case False
      then show ?thesis using Pair SubmitBranchOption
        by (simp add: submitBranchOption_def extends_refl)
    next
      case True
      then obtain b where b: "b \<in> set (messages st)" "rendersBranchOptions b" "msg_id b = mid"
        by (auto simp: branchButtonEnabled_def)
      let ?sel = "st\<lparr>messages := map (selectBranch opt mid) (messages st)\<rparr>"
      from handleSendMessage_appends[of cfg rd ?sel "Some opt" True]
      obtain ys where ys: "messages (fst (handleSendMessage cfg rd ?sel (Some opt) True))
          = map (selectBranch opt mid) (messages st) @ ys" by auto
      have "extends (messages st) (map (selectBranch opt mid) (messages st) @ ys)"
        using extends_trans[OF extends_select[OF b] extends_append] .
      then show ?thesis using Pair SubmitBranchOption True ys
        by (simp add: submitBranchOption_def handleBranchOptionClick_def)
    qed
  next
    case (RespondSettled r)
    from handleSendMessage_resume_appends[of cfg rd st r]
    show ?thesis using Pair RespondSettled by (auto simp: extends_append)
  next
    case (AskSettled r)
    from handleAskQuestion_resume_appends[of cfg rd st r]
    show ?thesis using Pair AskSettled by (auto simp: extends_append)
  next
    case PreviewTimeout
    then show ?thesis using Pair by (simp add: previewTimeout_def extends_append)
  qed
qed

lemma run_snoc: "run cfg st (acts @ [a]) = fst (step cfg (run cfg st acts) a)"
  by (simp add: run_def)

lemma run_append: "run cfg st (acts @ rest) = run cfg (run cfg st acts) rest"
  by (simp add: run_def)

lemma run_extends: "extends (messages st) (messages (run cfg st acts))"
proof (induction acts rule: rev_induct)
  case Nil
  show ?case by (simp add: run_def extends_refl)
next
  case (snoc a acts)
  from extends_trans[OF snoc step_extends[of "run cfg st acts" cfg a]]
  show ?case by (simp add: run_snoc)
qed

text \<open>
  C2: in a session (the start, then any submissions of free text, confirmations and
  branch options, together with the resumptions of their requests) the message list only
  grows: the list after further events extends the list before them. Every message keeps
  its position and all its fields but \<^const>\<open>selectedBranch\<close>, which changes only by being
  set, on a message that carries the id of a message with option buttons; so the length
  never decreases.
\<close>

theorem events_only_grow:
  "extends (messages (session cfg rd0 r acts)) (messages (session cfg rd0 r (acts @ rest)))"
  using run_extends[of "session cfg rd0 r acts" cfg rest]
  by (simp add: session_def run_append)

theorem events_only_grow_witness:
  "messages (session (botOne EmbedChat) clock startBranchAB []) = [branchMessage clock 0 branchAB]
   \<and> messages (session (botOne EmbedChat) clock startBranchAB
        ([] @ [(clock, SubmitBranchOption ''A'' ''17000000000010.5'')]))
      = [(branchMessage clock 0 branchAB)\<lparr>selectedBranch := Some ''A''\<rparr>, userText clock ''A'']
   \<and> extends (messages (session (botOne EmbedChat) clock startBranchAB []))
        (messages (session (botOne EmbedChat) clock startBranchAB
          ([] @ [(clock, SubmitBranchOption ''A'' ''17000000000010.5'')])))"
  using events_only_grow[of "botOne EmbedChat" clock startBranchAB "[]"
      "[(clock, SubmitBranchOption ''A'' ''17000000000010.5'')]"]
  by (simp add: flow_defs example_defs)

subsection \<open>The finished flag is never reset\<close>

lemma handleAskQuestion_finished:
  "flowFinished (fst (handleAskQuestion cfg rd st)) = flowFinished st"
  by (simp add: handleAskQuestion_def Let_def)

lemma handleSendMessage_finished:
  "flowFinished (fst (handleSendMessage cfg rd st ov b)) = flowFinished st"
  by (simp add: handleSendMessage_def sendToFlow_def handleAskQuestion_finished Let_def)

lemma step_finished:
  assumes "flowFinished st" shows "flowFinished (fst (step cfg st a))"
proof (cases a)
  case (Pair rd act)
  show ?thesis using assms Pair
    by (cases act)
       (simp_all add: submitFreeText_def submitConfirmation_def handleConfirmationClick_def
          submitBranchOption_def handleBranchOptionClick_def handleSendMessage_finished
          handleSendMessage_resume_def handleAskQuestion_resume_def previewTimeout_def Let_def
          split: sum.split prod.split)
qed

lemma run_finished:
  assumes "flowFinished st" shows "flowFinished (run cfg st acts)"
  using assms
  by (induction acts rule: rev_induct) (simp_all add: run_def step_finished)

text \<open>
  C1: once \<^const>\<open>flowFinished\<close> is true in a session, it is true after any further
  events of that session: no submission of free text, of a confirmation or of a branch
  option, no question in question and answer mode and no resumption of a request sets it
  back to false.
\<close>

theorem finished_never_reset:
  assumes "flowFinished (session cfg rd0 r acts)"
  shows "flowFinished (session cfg rd0 r (acts @ rest))"
  using run_finished[OF assms, of cfg rest] by (simp add: session_def run_append)

theorem finished_never_reset_witness:
  "flowFinished (session (botOne ChatBot) clock startFinished [])
   \<and> flowFinished (session (botOne ChatBot) clock startFinished
        ([] @ [(clock, SubmitFreeText ''hi''), (clock, AskSettled (Threw ''offline''))]))"
proof -
  have h: "flowFinished (session (botOne ChatBot) clock startFinished [])"
    by (simp add: flow_defs example_defs)
  from finished_never_reset[OF h] h show ?thesis by blast
qed

subsection \<open>A second selection on a branch prompt\<close>

text \<open>
  C3, as stated, fails. The handler has no guard: called again for a prompt that has a
  selection (here \<open>A\<close>, after the request of the first click has been answered), it
  overwrites the selection and sends a second request. The guard is the disabled button,
  and it tests the selection for truthiness: a prompt whose selected option is the empty
  label keeps its buttons enabled, so that a second click goes through.
\<close>

theorem reselection_goes_through:
  "map selectedBranch (messages settledA) = [Some ''A'', None]
   \<and> map selectedBranch (messages (fst
        (handleBranchOptionClick (botOne EmbedChat) clock settledA ''B'' ''17000000000010.5'')))
      = [Some ''B'', None, None]
   \<and> snd (handleBranchOptionClick (botOne EmbedChat) clock settledA ''B'' ''17000000000010.5'')
      = [Fetch (RespondFlow ''s1'' (OptionIndexOrLabel ''B''))]
   \<and> map msg_id (messages blankSelected) = [''17000000000010.5'']
   \<and> map selectedBranch (messages blankSelected) = [Some '''']
   \<and> map selectedBranch (messages (fst
        (submitBranchOption (botOne EmbedChat) clock blankSelected ''A'' ''17000000000010.5'')))
      = [Some ''A'', None]
   \<and> snd (submitBranchOption (botOne EmbedChat) clock blankSelected ''A'' ''17000000000010.5'')
      = [Fetch (RespondFlow ''s1'' (OptionIndexOrLabel ''A''))]"
  by (simp add: settledA_def blankSelected_def startBlankA_def branchBlankA_def
      flow_defs example_defs)

text \<open>
  C3, amended: when every message with option buttons that carries the targeted id has a
  non-empty \<^const>\<open>selectedBranch\<close> (with unique ids: when the branch prompt has one), its
  buttons are disabled and choosing an option for that id does nothing: the state,
  \<^const>\<open>selectedBranch\<close> included, is unchanged and no request is sent.
\<close>

theorem selected_prompt_rejects_click:
  assumes "\<forall>msg \<in> set (messages st).
             msg_id msg = messageId \<and> rendersBranchOptions msg \<longrightarrow> truthy (selectedBranch msg)"
  shows "submitBranchOption cfg rd st option messageId = (st, [])"
  using assms by (auto simp: submitBranchOption_def branchButtonEnabled_def)

theorem selected_prompt_rejects_click_witness:
  "map selectedBranch (messages settledA) = [Some ''A'', None]
   \<and> \<not> isLoading settledA
   \<and> map rendersBranchOptions (messages settledA) = [True, False]
   \<and> map (\<lambda>msg. truthy (selectedBranch msg)) (messages settledA) = [True, False]
   \<and> submitBranchOption (botOne EmbedChat) clock settledA ''B'' ''17000000000010.5'' = (settledA, [])"
proof -
  have m: "messages settledA
      = [(branchMessage clock 0 branchAB)\<lparr>selectedBranch := Some ''A''\<rparr>, userText clock ''A'']"
    and l: "\<not> isLoading settledA"
    by (simp_all add: settledA_def flow_defs example_defs)
  have s: "map selectedBranch (messages settledA) = [Some ''A'', None]"
    by (simp add: m userText_def)
  have h: "\<forall>msg \<in> set (messages settledA).
         msg_id msg = ''17000000000010.5'' \<and> rendersBranchOptions msg \<longrightarrow> truthy (selectedBranch msg)"
    by (simp add: m branchMessage_def userText_def rendersBranchOptions_def truthy_def)
  have t: "map rendersBranchOptions (messages settledA) = [True, False]"
    "map (\<lambda>msg. truthy (selectedBranch msg)) (messages settledA) = [True, False]"
    by (simp_all add: m branchMessage_def userText_def rendersBranchOptions_def truthy_def)
  from s l t selected_prompt_rejects_click[OF h, of "botOne EmbedChat" clock "''B''"]
  show ?thesis by blast
qed

subsection \<open>A start that fails\<close>

text \<open>
  C4, as stated, fails on two of the three surfaces: when the start call throws, the
  modal chat bot and the public bot page add no message at all.
\<close>

theorem modal_start_throw_adds_nothing:
  "messages (fst (initFlow (botOne ChatBot) clock initialState (Threw ''Failed to fetch''))) = []
   \<and> messages (fst (initFlow (botOne PublicBotChatPage) clock initialState (Threw ''Failed to fetch'')))
      = []"
  by (simp add: initFlow_def botOne_def initialState_def)

text \<open>
  C4, amended: when the start call throws, \<^const>\<open>sessionId\<close> is left as it was, so unset.
  The embed widget then shows exactly one message, from the bot, with a fixed greeting;
  the modal chat bot and the public bot page leave the state as it was and raise a
  toast.
\<close>

theorem start_throw_fallback:
  "sessionId (fst (initFlow cfg rd st (Threw e))) = sessionId st
   \<and> (surface cfg = EmbedChat \<longrightarrow>
        initFlow cfg rd st (Threw e) = (st\<lparr>messages := [initMessage rd]\<rparr>, []))
   \<and> (surface cfg \<noteq> EmbedChat \<longrightarrow>
        initFlow cfg rd st (Threw e) = (st, [Toast ''Error'' ''Failed to start conversation'']))
   \<and> sender (initMessage rd) = Bot
   \<and> content (initMessage rd) = ''Hello! I'm here to help. What would you like to know?''"
  by (simp add: initFlow_def initMessage_def)

theorem start_throw_fallback_witness:
  "surface (botOne EmbedChat) = EmbedChat
   \<and> sessionId (fst (initFlow (botOne EmbedChat) clock initialState (Threw ''Failed to fetch''))) = None
   \<and> messages (fst (initFlow (botOne EmbedChat) clock initialState (Threw ''Failed to fetch'')))
       = [initMessage clock]
   \<and> surface (botOne ChatBot) \<noteq> EmbedChat
   \<and> initFlow (botOne ChatBot) clock initialState (Threw ''Failed to fetch'')
       = (initialState, [Toast ''Error'' ''Failed to start conversation''])"
  using start_throw_fallback[of "botOne EmbedChat" clock initialState "''Failed to fetch''"]
    start_throw_fallback[of "botOne ChatBot" clock initialState "''Failed to fetch''"]
  by (simp add: botOne_def initialState_def)

subsection \<open>Branch prompts\<close>

text \<open>
  C5: a raw message of type \<open>branch\<close> that is flagged as awaiting input adds exactly one
  message to those collected so far: from the bot, with empty text, with its option
  buttons shown, and with the options of the raw message (none when the field is absent);
  it issues no effect. In particular the start response of the example, with one such
  message carrying the options \<open>A\<close> and \<open>B\<close> and with the envelope awaiting \<open>branch\<close>, gives
  a state with that one message, paused for a branch.
\<close>

theorem branch_prompt_normalised:
  assumes "raw_type msg = Some ''branch''" and "raw_awaitingInput msg = Some True"
  shows "(\<exists>e. pushMessage rd (botMessages, effs) msg = (botMessages @ [e], effs)
            \<and> sender e = Bot \<and> content e = [] \<and> awaitingKind e = AwaitBranch
            \<and> branchOptions e = Some (case raw_options msg of None \<Rightarrow> [] | Some os \<Rightarrow> os))
       \<and> (let st = fst (initFlow cfg rd initialState (Response ok
              \<lparr>data_sessionId = Some ''s1'',
               data_messages = Some [\<lparr>raw_type = Some ''branch'', raw_content = None,
                  raw_message = None, raw_awaitingInput = Some True, raw_options = Some [''A'', ''B'']\<rparr>],
               data_awaitingInput = Some \<lparr>aw_type = Some ''branch'', aw_showConfirmationButtons = False\<rparr>,
               data_finished = False, data_error = None\<rparr>))
           in length (messages st) = 1
              \<and> sender (messages st ! 0) = Bot
              \<and> content (messages st ! 0) = []
              \<and> awaitingKind (messages st ! 0) = AwaitBranch
              \<and> branchOptions (messages st ! 0) = Some [''A'', ''B'']
              \<and> pausedKind st = PausedBranch
              \<and> sessionId st = Some ''s1'' \<and> \<not> flowFinished st)"
  using assms
  by (simp add: branchMessage_def awaitingKind_def optionsOrEmpty_def initFlow_def
      forEachMessage_def initialState_def truthy_def pausedKind_def Let_def)

theorem branch_prompt_normalised_witness:
  "raw_type branchAB = Some ''branch'' \<and> raw_awaitingInput branchAB = Some True
   \<and> pushMessage clock ([], []) branchAB = ([branchMessage clock 0 branchAB], [])
   \<and> branchOptions (branchMessage clock 0 branchAB) = Some [''A'', ''B'']"
proof -
  have h: "raw_type branchAB = Some ''branch''" "raw_awaitingInput branchAB = Some True"
    by (simp_all add: branchAB_def)
  from branch_prompt_normalised[OF h, of clock "[]" "[]"] h show ?thesis
    by (auto simp: branchMessage_def branchAB_def optionsOrEmpty_def)
qed

subsection \<open>Redirects\<close>




subsection \<open>A response that finishes the flow\<close>



subsection \<open>A question that fails\<close>

text \<open>
  C8: in question and answer mode (the flow is finished, nothing is in flight, and the
  text is not blank), when the ask call throws, or its response is not \<^verbatim>\<open>ok\<close>, or the
  body lacks \<^verbatim>\<open>result\<close> or a non-empty \<^verbatim>\<open>answer\<close> in it, the submission appends one
  message, from the user, with the trimmed text, and sends the question; the resumption
  appends after it exactly one message, from the bot, with a fixed text: the apology, or
  the notice that no answer was found when only the answer is missing. So the list has
  grown by these two messages, in this order. The exception ends in the \<^verbatim>\<open>catch\<close>
  block: the handler returns a state and sends no further request; the loading flag is
  cleared and the paused descriptor, the session id and the finished flag are as before.
\<close>

theorem ask_failure_fallback:
  assumes "flowFinished st" and "\<not> isLoading st" and "trim question \<noteq> []"
    and "\<not> (surface cfg = EmbedChat \<and> isPreview cfg)"
    and "(case r of Threw e \<Rightarrow> True
          | Response ok d \<Rightarrow>
              \<not> ok \<or> \<not> truthy (case ask_result d of None \<Rightarrow> None | Some a \<Rightarrow> a))"
  shows "(let (st1, effs1) = submitFreeText cfg rd st question;
              (st2, effs2) = handleAskQuestion_resume cfg rd' st1 r
          in effs1 = [Fetch (AskQuestion (trim question) (botId cfg))]
             \<and> isLoading st1
             \<and> (\<exists>asked. messages st1 = messages st @ [asked]
                  \<and> asked = userText rd (trim question)
                  \<and> msg_id asked = userId rd \<and> sender asked = User
                  \<and> content asked = trim question \<and> timestamp asked = userDate rd
                  \<and> selectedBranch asked = None \<and> \<not> rendersBranchOptions asked)
             \<and> (\<exists>asked fallback. messages st2 = messages st @ [asked, fallback]
                  \<and> asked = userText rd (trim question)
                  \<and> sender asked = User \<and> content asked = trim question
                  \<and> fallback = botText rd' 0 (content fallback)
                  \<and> msg_id fallback = botIdAt rd' 0 \<and> sender fallback = Bot
                  \<and> content fallback =
                      (case r of Threw e \<Rightarrow> ''I'm having trouble answering that. Please try again.''
                       | Response ok d \<Rightarrow>
                           if ok \<and> ask_result d \<noteq> None
                           then ''I couldn't find an answer to that question.''
                           else ''I'm having trouble answering that. Please try again.''))
             \<and> length (messages st2) = length (messages st) + 2
             \<and> (\<forall>req. Fetch req \<notin> set effs2)
             \<and> \<not> isLoading st2
             \<and> currentPausedFor st2 = currentPausedFor st
             \<and> sessionId st2 = sessionId st
             \<and> flowFinished st2)"
  using assms
  by (auto simp: submitFreeText_def handleSendMessage_def handleAskQuestion_def messageToSend_def
      handleAskQuestion_resume_def askTry_def botText_def userText_def errorToast_def
      rendersBranchOptions_def truthy_def Let_def
      split: fetched.splits option.splits sum.splits)

theorem ask_failure_fallback_witness:
  "flowFinished finishedNoSession \<and> \<not> isLoading finishedNoSession \<and> trim ''hi'' \<noteq> []
   \<and> currentPausedFor finishedNoSession = None
   \<and> map sender (messages finishedNoSession) = [Bot]
   \<and> map sender (messages (fst (submitFreeText (botOne ChatBot) clock finishedNoSession ''hi'')))
     = [Bot, User]
   \<and> map sender (messages (fst (handleAskQuestion_resume (botOne ChatBot) clock
        (fst (submitFreeText (botOne ChatBot) clock finishedNoSession ''hi''))
        (Response False \<lparr>ask_result = None, ask_error = Some ''boom''\<rparr>))))
     = [Bot, User, Bot]
   \<and> map content (messages (fst (handleAskQuestion_resume (botOne ChatBot) clock
        (fst (submitFreeText (botOne ChatBot) clock finishedNoSession ''hi''))
        (Response False \<lparr>ask_result = None, ask_error = Some ''boom''\<rparr>))))
     = [''Feel free to ask me any questions!'', ''hi'',
        ''I'm having trouble answering that. Please try again.'']
   \<and> snd (handleAskQuestion_resume (botOne ChatBot) clock
        (fst (submitFreeText (botOne ChatBot) clock finishedNoSession ''hi''))
        (Response False \<lparr>ask_result = None, ask_error = Some ''boom''\<rparr>))
     = [Toast ''Error'' ''boom'']
   \<and> \<not> isLoading (fst (handleAskQuestion_resume (botOne ChatBot) clock
        (fst (submitFreeText (botOne ChatBot) clock finishedNoSession ''hi''))
        (Response False \<lparr>ask_result = None, ask_error = Some ''boom''\<rparr>)))
   \<and> currentPausedFor (fst (handleAskQuestion_resume (botOne ChatBot) clock
        (fst (submitFreeText (botOne ChatBot) clock finishedNoSession ''hi''))
        (Response False \<lparr>ask_result = None, ask_error = Some ''boom''\<rparr>))) = None"
proof -
  have h: "flowFinished finishedNoSession" "\<not> isLoading finishedNoSession" "trim ''hi'' \<noteq> []"
    "\<not> (surface (botOne ChatBot) = EmbedChat \<and> isPreview (botOne ChatBot))"
    "(case Response False \<lparr>ask_result = None, ask_error = Some ''boom''\<rparr> of Threw e \<Rightarrow> True
          | Response ok d \<Rightarrow>
              \<not> ok \<or> \<not> truthy (case ask_result d of None \<Rightarrow> None | Some a \<Rightarrow> a))"
    and p: "currentPausedFor finishedNoSession = None"
    by (simp_all add: finishedNoSession_def flow_defs example_defs)
  from ask_failure_fallback[OF h, of clock clock] h p show ?thesis
    by (simp add: finishedNoSession_def flow_defs example_defs)
qed

subsection \<open>Free text that is rejected\<close>

text \<open>
  C9, as stated, fails in its third case. Without a session id, free text is not
  rejected once the flow is finished (a start response may be finished and carry no
  session id): the question is sent to the ask endpoint. Nor is it rejected in the
  preview mode of the embed widget, where no session ever exists.
\<close>

theorem finished_without_session_asks:
  "sessionId finishedNoSession = None
   \<and> submitFreeText (botOne ChatBot) clock finishedNoSession ''hi''
      = (finishedNoSession\<lparr>messages := messages finishedNoSession @ [userText clock ''hi''],
           isLoading := True\<rparr>,
         [Fetch (AskQuestion ''hi'' ''bot-1'')])
   \<and> sessionId previewState = None
   \<and> submitFreeText previewConfig clock previewState ''hi''
      = (previewState\<lparr>messages := messages previewState @ [userText clock ''hi''],
           isLoading := True\<rparr>,
         [SetTimeout 1000])"
  by (simp add: finishedNoSession_def previewConfig_def previewState_def flow_defs example_defs)

text \<open>
  C9, amended: free text that is empty or white space only, or submitted while a call is
  in flight, or submitted without a session id while the flow is not finished (and the
  embed widget is not in preview mode), is silently dropped: beyond the input box holding
  the text, the state is unchanged (no message is appended; the paused descriptor, the
  finished flag and the session id stay), and no effect is issued, so no request is sent.
\<close>

theorem free_text_rejected:
  assumes "(\<forall>c \<in> set t. isWhiteSpace c) \<or> isLoading st
           \<or> (\<not> truthy (sessionId st) \<and> \<not> flowFinished st
               \<and> \<not> (surface cfg = EmbedChat \<and> isPreview cfg))"
  shows "submitFreeText cfg rd st t = (st\<lparr>input := t\<rparr>, [])"
proof -
  have "trim t = [] \<or> isLoading st
           \<or> (\<not> truthy (sessionId st) \<and> \<not> flowFinished st
               \<and> \<not> (surface cfg = EmbedChat \<and> isPreview cfg))"
    using assms by (simp add: trim_empty_iff)
  then show ?thesis
    by (auto simp: submitFreeText_def handleSendMessage_def handleAskQuestion_def
        messageToSend_def Let_def)
qed

theorem free_text_rejected_witness:
  "isWhiteSpace (CHR '' '')
   \<and> submitFreeText (botOne EmbedChat) clock initialState '' '' = (initialState\<lparr>input := '' ''\<rparr>, [])
   \<and> \<not> truthy (sessionId initialState) \<and> \<not> flowFinished initialState
   \<and> \<not> (surface (botOne ChatBot) = EmbedChat \<and> isPreview (botOne ChatBot))
   \<and> submitFreeText (botOne ChatBot) clock initialState ''hi'' = (initialState\<lparr>input := ''hi''\<rparr>, [])"
proof -
  have w: "isWhiteSpace (CHR '' '')" by (simp add: isWhiteSpace_def)
  then have h1: "(\<forall>c \<in> set '' ''. isWhiteSpace c)" by simp
  have h2: "\<not> truthy (sessionId initialState)" "\<not> flowFinished initialState"
    "\<not> (surface (botOne ChatBot) = EmbedChat \<and> isPreview (botOne ChatBot))"
    by (simp_all add: initialState_def truthy_def botOne_def)
  from free_text_rejected[of "'' ''" initialState "botOne EmbedChat" clock]
    free_text_rejected[of "''hi''" initialState "botOne ChatBot" clock] w h1 h2
  show ?thesis by blast
qed

subsection \<open>A branch option chosen while a call is in flight\<close>

lemma map_fixed: "map f xs = xs \<Longrightarrow> x \<in> set xs \<Longrightarrow> f x = x"
  by (induction xs) auto

text \<open>
  C10: while a call is in flight, choosing an option of a branch prompt that has no
  selection yet sends no request and appends no message (the messages are the old ones,
  mapped, and no effect is issued), and yet it sets the \<^const>\<open>selectedBranch\<close> of that
  prompt to the chosen option: the selection is applied before \<^verbatim>\<open>handleSendMessage\<close>
  rejects the submission, so the state is not the one before.
\<close>

theorem selection_applied_while_loading:
  assumes "isLoading st"
    and "msg \<in> set (messages st)" and "msg_id msg = messageId"
    and "rendersBranchOptions msg" and "branchOptions msg = Some os" and "option \<in> set os"
    and "selectedBranch msg = None"
  shows "submitBranchOption cfg rd st option messageId
           = (st\<lparr>messages := map (selectBranch option messageId) (messages st)\<rparr>, [])
       \<and> selectBranch option messageId msg = msg\<lparr>selectedBranch := Some option\<rparr>
       \<and> fst (submitBranchOption cfg rd st option messageId) \<noteq> st"
proof -
  have en: "branchButtonEnabled st option messageId"
    using assms by (auto simp: branchButtonEnabled_def truthy_def)
  have eq: "submitBranchOption cfg rd st option messageId
           = (st\<lparr>messages := map (selectBranch option messageId) (messages st)\<rparr>, [])"
    using en assms(1)
    by (simp add: submitBranchOption_def handleBranchOptionClick_def handleSendMessage_def
        handleAskQuestion_def Let_def)
  have sel: "selectBranch option messageId msg = msg\<lparr>selectedBranch := Some option\<rparr>"
    using assms(3) by (simp add: selectBranch_def)
  have "map (selectBranch option messageId) (messages st) \<noteq> messages st"
  proof
    assume "map (selectBranch option messageId) (messages st) = messages st"
    from map_fixed[OF this assms(2)] sel have "msg\<lparr>selectedBranch := Some option\<rparr> = msg" by simp
    then have "selectedBranch (msg\<lparr>selectedBranch := Some option\<rparr>) = selectedBranch msg" by simp
    with assms(7) show False by simp
  qed
  then have "st\<lparr>messages := map (selectBranch option messageId) (messages st)\<rparr> \<noteq> st"
    by (metis state.select_convs(1) state.surjective state.update_convs(1))
  with eq sel show ?thesis by simp
qed

theorem selection_applied_while_loading_witness:
  "isLoading loadingAB
   \<and> submitBranchOption (botOne EmbedChat) clock loadingAB ''B'' ''17000000000010.5''
     = (loadingAB\<lparr>messages := [(branchMessage clock 0 branchAB)\<lparr>selectedBranch := Some ''B''\<rparr>,
          userText clock ''hello'']\<rparr>, [])"
proof -
  have h: "isLoading loadingAB" "branchMessage clock 0 branchAB \<in> set (messages loadingAB)"
    "msg_id (branchMessage clock 0 branchAB) = ''17000000000010.5''"
    "rendersBranchOptions (branchMessage clock 0 branchAB)"
    "branchOptions (branchMessage clock 0 branchAB) = Some [''A'', ''B'']"
    "''B'' \<in> set [''A'', ''B'']"
    "selectedBranch (branchMessage clock 0 branchAB) = None"
    by (simp_all add: loadingAB_def branchMessage_def rendersBranchOptions_def clock_def
        branchAB_def optionsOrEmpty_def)
  from selection_applied_while_loading[OF h, of "botOne EmbedChat" clock] h(1)
  show ?thesis
    by (simp add: loadingAB_def selectBranch_def branchMessage_def userText_def clock_def)
qed

end
